theory Spec2Isabelle
  imports Complex_Main "HOL-Library.List_Lexorder" "HOL-Library.Char_ord"
begin

section \<open>Data of the pollen feed (src/js/pollen-feed.js)\<close>

text \<open>
  An element of a \<^verbatim>\<open>PPM3\<close> or \<^verbatim>\<open>Misery\<close> array: the JSON value \<^verbatim>\<open>null\<close> or a
  number. \<open>Num x\<close> carries the number \<open>x\<close> as the JSON text writes it; the value the
  engine computes with is the double nearest to it, \<open>double x\<close> below, which is \<open>x\<close>
  itself when \<open>x\<close> is a double.
\<close>

datatype reading = Null | Num real

text \<open>
  One entry of \<^verbatim>\<open>data.Categories\<close>. \<^verbatim>\<open>Misery\<close> is optional in the response;
  \<open>None\<close> is a missing (or \<^verbatim>\<open>null\<close>) property, which is falsy. An array is truthy
  whatever it holds, the empty array included.
\<close>

record category =
  CategoryCode :: string
  CategoryDescription :: "string option"
  PPM3 :: "reading list"
  Misery :: "reading list option"

text \<open>
  An element of the \<^verbatim>\<open>categories\<close> array of a payload: \<^verbatim>\<open>undefined\<close>, as
  \<^verbatim>\<open>Array.prototype.find\<close> returns it when nothing matches, \<^verbatim>\<open>null\<close>, as JSON text
  has it, or a category object.
\<close>

datatype entry = Undefined | NullEntry | Series category

text \<open>
  \<^verbatim>\<open>xs[i]\<close> in JavaScript: the element when the index is in range, and
  \<^verbatim>\<open>undefined\<close> (here \<open>None\<close>) when it is not. No exception is raised.
\<close>

definition js_index :: "'a list \<Rightarrow> int \<Rightarrow> 'a option" where
  "js_index xs i = (if 0 \<le> i \<and> i < int (length xs) then Some (xs ! nat i) else None)"

section \<open>JavaScript numbers\<close>

text \<open>
  A number value: NaN, an infinity, or a finite double given by its exact value.
\<close>

datatype number = NaN | Finite real | PosInfinity | NegInfinity

text \<open>Rounding to the nearest integer, a tie going to the even one.\<close>

definition ties_even :: "real \<Rightarrow> int" where
  "ties_even q =
     (let f = \<lfloor>q\<rfloor>; d = q - of_int f
      in if d < 1 / 2 then f else if 1 / 2 < d then f + 1 else if even f then f else f + 1)"

text \<open>
  The exponent of the spacing of the doubles around a magnitude \<open>a\<close>: the doubles in
  \<open>[2^(e + 52), 2^(e + 53))\<close> are the multiples of \<open>2^e\<close>, with \<open>e\<close> from \<open>-1074\<close>
  (which also serves every smaller magnitude) to \<open>971\<close>.
\<close>

definition ulp_exponent :: "real \<Rightarrow> int" where
  "ulp_exponent a = Max (set (- 1074 # filter (\<lambda>e. 2 powi (e + 52) \<le> a) [- 1074 .. 971]))"

text \<open>
  A magnitude from \<open>2^1024 - 2^970\<close> on, half a spacing above the largest double,
  rounds to an infinity.
\<close>

definition overflows :: "real \<Rightarrow> bool" where
  "overflows x = (2 ^ 1024 - 2 ^ 970 \<le> \<bar>x\<bar>)"

text \<open>
  The double nearest to a real number (IEEE 754 binary64, round to nearest, ties to
  even): what \<^verbatim>\<open>JSON.parse\<close> makes of a number in the text and what an arithmetic
  operation makes of its exact result.
\<close>

definition double :: "real \<Rightarrow> number" where
  "double x =
     (if overflows x then (if x < 0 then NegInfinity else PosInfinity)
      else (let a = \<bar>x\<bar>; e = ulp_exponent a;
                r = of_int (ties_even (a / 2 powi e)) * 2 powi e
            in Finite (if x < 0 then - r else r)))"

section \<open>The series selector: the callback of displayGaugesForCategories\<close>

text \<open>
  Lines 145 to 147: the loop
  \<^verbatim>\<open>while (latestValidIndex >= 0 && categoryData.PPM3[latestValidIndex] === null) latestValidIndex--;\<close>
  as a function of the array and the current value of the index. The comparison is
  strict: only \<^verbatim>\<open>null\<close> continues the scan, \<^verbatim>\<open>undefined\<close> would stop it.
\<close>

function latestValidIndex_loop :: "reading list \<Rightarrow> int \<Rightarrow> int" where
  "latestValidIndex_loop ppm i =
     (if 0 \<le> i \<and> js_index ppm i = Some Null then latestValidIndex_loop ppm (i - 1) else i)"
  by pat_completeness auto
termination
  by (relation "measure (\<lambda>(ppm, i). nat (i + 1))") auto

declare latestValidIndex_loop.simps [simp del]

text \<open>
  \<^verbatim>\<open>Misery[latestValidIndex] * 100\<close>: the operand is converted to a number first, so
  \<^verbatim>\<open>null\<close> counts as 0, whose product with 100 is 0, and \<^verbatim>\<open>undefined\<close> gives NaN.
  The product of a finite double with 100 is the double nearest to the exact product,
  or an infinity; an infinity times 100 is that infinity.
\<close>

fun times100 :: "reading option \<Rightarrow> number" where
  "times100 (Some (Num x)) = (case double x of Finite d \<Rightarrow> double (d * 100) | n \<Rightarrow> n)"
| "times100 (Some Null) = Finite 0"
| "times100 None = NaN"

text \<open>
  The text of \<^verbatim>\<open>latestMisery\<close>. \<open>NotAvailable\<close> is the string \<^verbatim>\<open>'N/A'\<close>;
  \<open>Fixed2 neg n\<close> is the decimal text of \<open>n / 100\<close> with two digits after the point,
  preceded by a minus sign when \<open>neg\<close> holds (\<open>Fixed2 False 0\<close> is \<^verbatim>\<open>"0.00"\<close>);
  \<open>NaNText\<close> is \<^verbatim>\<open>"NaN"\<close>; \<open>InfinityText neg\<close> is \<^verbatim>\<open>"Infinity"\<close> or, when \<open>neg\<close>
  holds, \<^verbatim>\<open>"-Infinity"\<close>; \<open>NumberText x\<close> is the plain number-to-string text that
  \<^verbatim>\<open>toFixed\<close> falls back to from 10^21 on.
\<close>

datatype misery_text =
  NotAvailable | Fixed2 bool nat | NaNText | InfinityText bool | NumberText real

text \<open>
  \<^verbatim>\<open>Number.prototype.toFixed(2)\<close>: a value that is not finite gives its name; for a
  negative number the sign is split off; the digits are those of the integer \<open>n\<close> for
  which \<open>n / 100\<close> is closest to the exact value of the double, the larger \<open>n\<close> when
  two are equally close.
\<close>

fun toFixed2 :: "number \<Rightarrow> misery_text" where
  "toFixed2 NaN = NaNText"
| "toFixed2 PosInfinity = InfinityText False"
| "toFixed2 NegInfinity = InfinityText True"
| "toFixed2 (Finite x) =
     (let neg = (x < 0); a = (if neg then - x else x)
      in if 10 ^ 21 \<le> a then NumberText x
         else Fixed2 neg (nat \<lfloor>a * 100 + 1 / 2\<rfloor>))"

text \<open>What the callback has computed for a category when it reaches line 156.\<close>

record gauge_reading =
  latestValidIndex :: int
  latestPPM :: "reading option"
  latestMisery :: misery_text
  latestTime :: "string option"

text \<open>
  Lines 139 to 156 of the callback passed to \<^verbatim>\<open>categoriesData.forEach\<close>. \<open>None\<close> is
  the early \<^verbatim>\<open>return\<close>: the category is skipped and no gauge is drawn for it. The
  test \<^verbatim>\<open>!categoryData\<close> holds for \<^verbatim>\<open>undefined\<close> and for \<^verbatim>\<open>null\<close>.
\<close>

definition categoryReading :: "string list \<Rightarrow> entry \<Rightarrow> gauge_reading option" where
  "categoryReading moments categoryData =
     (case categoryData of
        Undefined \<Rightarrow> None
      | NullEntry \<Rightarrow> None
      | Series c \<Rightarrow>
          (let i = latestValidIndex_loop (PPM3 c) (int (length (PPM3 c)) - 1)
           in if i = - 1 then None
              else Some \<lparr>latestValidIndex = i,
                         latestPPM = js_index (PPM3 c) i,
                         latestMisery =
                           (case Misery c of
                              Some m \<Rightarrow> toFixed2 (times100 (js_index m i))
                            | None \<Rightarrow> NotAvailable),
                         latestTime = js_index moments i\<rparr>))"

section \<open>The data fetcher: getDataByCategory\<close>

text \<open>
  \<^verbatim>\<open>getUrlParameter(name)\<close> reads \<^verbatim>\<open>window.location.search\<close>, here the list of its
  decoded name/value pairs in order. \<^verbatim>\<open>URLSearchParams.get\<close> returns the value of
  the first pair with the name, or \<^verbatim>\<open>null\<close> (here \<open>None\<close>).
\<close>

definition getUrlParameter :: "(string \<times> string) list \<Rightarrow> string \<Rightarrow> string option" where
  "getUrlParameter search name = map_of search name"

text \<open>Truthiness of a string or \<^verbatim>\<open>null\<close>: only \<^verbatim>\<open>null\<close> and the empty string are falsy.\<close>

definition truthy :: "string option \<Rightarrow> bool" where
  "truthy s = (case s of None \<Rightarrow> False | Some v \<Rightarrow> v \<noteq> [])"

text \<open>Lines 34 to 38.\<close>

definition getFormattedDateUTC :: "string \<Rightarrow> bool \<Rightarrow> string" where
  "getFormattedDateUTC dateString isEndOfDay =
     (let timePart = (if isEndOfDay then ''23:59:59'' else ''00:00:00'')
      in dateString @ ''T'' @ timePart @ ''Z'')"

text \<open>
  Lines 62 and 67 to 70: the value of \<^verbatim>\<open>urlDate\<close> from line 70 on. \<open>today\<close> is the text
  that \<^verbatim>\<open>new Date().toISOString()\<close> gives at line 69, the current instant in UTC such
  as \<^verbatim>\<open>2024-09-12T10:20:30.000Z\<close>; \<^verbatim>\<open>split('T')[0]\<close> keeps what stands before the
  first \<^verbatim>\<open>T\<close>. A truthy parameter is taken as it is.
\<close>

definition urlDate :: "(string \<times> string) list \<Rightarrow> string \<Rightarrow> string" where
  "urlDate search today =
     (case getUrlParameter search ''date'' of
        None \<Rightarrow> takeWhile (\<lambda>c. c \<noteq> CHR ''T'') today
      | Some d \<Rightarrow> if d = [] then takeWhile (\<lambda>c. c \<noteq> CHR ''T'') today else d)"

text \<open>
  \<^verbatim>\<open>api.config.js\<close> is imported by the module and is not among the sources: its
  three values are parameters of the model.
\<close>

record api_config =
  apiUrl :: string
  apiKey :: string
  defaultInterval :: string

text \<open>The parsed body of the API response, \<^verbatim>\<open>data\<close> at line 107.\<close>

record api_data =
  Moments :: "string list"
  Categories :: "category list"

text \<open>
  The object \<^verbatim>\<open>responseData\<close> of line 110, and what a call resolves to.
\<close>

record response_data =
  moments :: "string list"
  categories :: "entry list"

text \<open>
  The JSON text of a payload, as a tree. An element of the \<^verbatim>\<open>categories\<close> array is
  written as \<^verbatim>\<open>null\<close> or as an object.
\<close>

datatype json_entry = JSON_null | JSON_object category

record json_text =
  moments_text :: "string list"
  categories_text :: "json_entry list"

text \<open>
  \<^verbatim>\<open>JSON.stringify\<close> on a number: a value that is not finite is written as
  \<^verbatim>\<open>null\<close>; a finite double is written as a number that reads back as the same
  double, for which the model keeps the number it has.
\<close>

definition stringify_reading :: "reading \<Rightarrow> reading" where
  "stringify_reading r = (case r of Null \<Rightarrow> Null | Num x \<Rightarrow> if overflows x then Null else Num x)"

definition stringify_category :: "category \<Rightarrow> category" where
  "stringify_category c =
     c\<lparr>PPM3 := map stringify_reading (PPM3 c),
       Misery := map_option (map stringify_reading) (Misery c)\<rparr>"

text \<open>
  \<^verbatim>\<open>JSON.stringify(responseData)\<close> of line 118: strings are kept, and an array element
  that is \<^verbatim>\<open>undefined\<close> is written as \<^verbatim>\<open>null\<close>.
\<close>

definition JSON_stringify :: "response_data \<Rightarrow> json_text" where
  "JSON_stringify d =
     \<lparr>moments_text = moments d,
      categories_text =
        map (\<lambda>e. case e of Series c \<Rightarrow> JSON_object (stringify_category c) | _ \<Rightarrow> JSON_null)
          (categories d)\<rparr>"

text \<open>\<^verbatim>\<open>JSON.parse\<close> of line 83 on the text of a payload.\<close>

definition JSON_parse :: "json_text \<Rightarrow> response_data" where
  "JSON_parse t =
     \<lparr>moments = moments_text t,
      categories =
        map (\<lambda>j. case j of JSON_null \<Rightarrow> NullEntry | JSON_object c \<Rightarrow> Series c)
          (categories_text t)\<rparr>"

text \<open>
  The two entries of \<^verbatim>\<open>localStorage\<close> the module uses, each \<open>None\<close> when the key is
  missing. \<open>pollenData\<close> is the JSON text stored under that key. \<open>lastRequestTime\<close> is
  the number whose decimal text is stored under that key; the stored text is never
  empty, hence truthy, also for the number 0. A time of the clock is a whole number
  of milliseconds of magnitude at most 8.64e15, which a double holds exactly and
  whose decimal text reads back as the same number.
\<close>

record local_storage =
  pollenData :: "json_text option"
  lastRequestTime :: "int option"

record request =
  url :: string
  headers :: "(string \<times> string) list"

datatype error = FetchRejected

text \<open>
  One call of \<^verbatim>\<open>getDataByCategory\<close>: the value the promise resolves to (or the
  rejection), \<^verbatim>\<open>localStorage\<close> afterwards, the lines logged and the HTTP requests
  issued.
\<close>

record fetch_run =
  returned :: "error + response_data"
  storage :: local_storage
  console :: "string list"
  requests :: "request list"

definition oneHourInMilliseconds :: int where
  "oneHourInMilliseconds = 60 * 60 * 1000"

text \<open>\<^verbatim>\<open>interval || apiConfig.defaultInterval\<close> of line 98.\<close>

definition interval_or_default :: "string option \<Rightarrow> api_config \<Rightarrow> string" where
  "interval_or_default interval cfg =
     (if truthy interval then the interval else defaultInterval cfg)"

text \<open>Lines 110 to 115: the projection of the response onto the requested codes.\<close>

definition responseData :: "string list \<Rightarrow> api_data \<Rightarrow> response_data" where
  "responseData categoryCodes data =
     \<lparr>moments = Moments data,
      categories =
        map (\<lambda>code.
               case find (\<lambda>category. CategoryCode category = code) (Categories data) of
                 None \<Rightarrow> Undefined
               | Some category \<Rightarrow> Series category)
          categoryCodes\<rparr>"

text \<open>
  Lines 61 to 123. The environment is explicit: the configuration \<open>cfg\<close>, the network
  \<open>fetch\<close> (\<open>None\<close> when the request fails or the body is not JSON, which rejects the
  promise), the query string \<open>search\<close>, the clock read at line 69 (\<open>today\<close>) and at
  line 87 (\<open>currentTime\<close>, epoch milliseconds) and \<^verbatim>\<open>localStorage\<close>. At line 83 a
  missing key gives \<^verbatim>\<open>null\<close>, since \<^verbatim>\<open>JSON.parse(null)\<close> is \<^verbatim>\<open>null\<close>. Line 78 only
  sets the text of the date label and is left out.
\<close>

definition getDataByCategory ::
  "api_config \<Rightarrow> (request \<Rightarrow> api_data option) \<Rightarrow> (string \<times> string) list \<Rightarrow> string \<Rightarrow> int \<Rightarrow>
   local_storage \<Rightarrow> string list \<Rightarrow> fetch_run" where
  "getDataByCategory cfg fetch search today currentTime ls categoryCodes =
     (let noCache = (getUrlParameter search ''noCache'' = Some ''true'');
          interval = getUrlParameter search ''interval'';
          startingDate = getFormattedDateUTC (urlDate search today) False;
          endingDate = getFormattedDateUTC (urlDate search today) True;
          storedPollenData = map_option JSON_parse (pollenData ls)
      in if \<not> noCache \<and> lastRequestTime ls \<noteq> None \<and> storedPollenData \<noteq> None \<and>
            currentTime - the (lastRequestTime ls) < oneHourInMilliseconds
         then \<lparr>returned = Inr (the storedPollenData), storage = ls,
               console = [''Using cached data''], requests = []\<rparr>
         else
           (let req =
                  \<lparr>url = apiUrl cfg @ ''?interval='' @ interval_or_default interval cfg @
                         ''&starting='' @ startingDate @ ''&ending='' @ endingDate,
                   headers = [(''X-Ps-Key'', apiKey cfg)]\<rparr>
            in case fetch req of
                 None \<Rightarrow>
                   \<lparr>returned = Inl FetchRejected, storage = ls,
                    console = [''Fetching new data from API''], requests = [req]\<rparr>
               | Some data \<Rightarrow>
                   \<lparr>returned = Inr (responseData categoryCodes data),
                    storage =
                      \<lparr>pollenData = Some (JSON_stringify (responseData categoryCodes data)),
                       lastRequestTime = Some currentTime\<rparr>,
                    console = [''Fetching new data from API''], requests = [req]\<rparr>))"

section \<open>Inputs used in the examples\<close>



text \<open>A configuration, a response of the API with two categories, and a cache filled from it.\<close>

definition example_config :: api_config where
  "example_config =
     \<lparr>apiUrl = ''https://sensors.example/api/metrics'', apiKey = ''secret'',
      defaultInterval = ''hour''\<rparr>"

definition example_POL :: category where
  "example_POL =
     \<lparr>CategoryCode = ''POL'', CategoryDescription = Some ''Pollen'',
      PPM3 = [Num 1, Null, Num 2, Null], Misery = Some [Num (1 / 10), Null, Num (1 / 4), Null]\<rparr>"

definition example_GRA :: category where
  "example_GRA =
     \<lparr>CategoryCode = ''GRA'', CategoryDescription = Some ''Grass'',
      PPM3 = [Null, Null, Null, Null], Misery = None\<rparr>"

definition example_data :: api_data where
  "example_data =
     \<lparr>Moments = [''2024-09-12T00:00:00Z'', ''2024-09-12T01:00:00Z'',
                 ''2024-09-12T02:00:00Z'', ''2024-09-12T03:00:00Z''],
      Categories = [example_POL, example_GRA]\<rparr>"

definition example_fetch :: "request \<Rightarrow> api_data option" where
  "example_fetch req = Some example_data"

text \<open>A response whose only reading is written \<^verbatim>\<open>1e400\<close>, beyond the range of the doubles.\<close>

definition example_huge_data :: api_data where
  "example_huge_data =
     \<lparr>Moments = [''2024-09-12T00:00:00Z''],
      Categories =
        [\<lparr>CategoryCode = ''POL'', CategoryDescription = Some ''Pollen'',
          PPM3 = [Num (10 ^ 400)], Misery = None\<rparr>]\<rparr>"

definition example_huge_fetch :: "request \<Rightarrow> api_data option" where
  "example_huge_fetch req = Some example_huge_data"

definition example_storage :: local_storage where
  "example_storage =
     \<lparr>pollenData = Some (JSON_stringify (responseData [''POL''] example_data)),
      lastRequestTime = Some 1726135200000\<rparr>"

section \<open>The latest valid reading\<close>

lemma latestValidIndex_loop_range:
  "- 1 \<le> i \<Longrightarrow> - 1 \<le> latestValidIndex_loop ppm i \<and> latestValidIndex_loop ppm i \<le> i"
proof (induction ppm i rule: latestValidIndex_loop.induct)
  case (1 ppm i)
  show ?case
  proof (cases "0 \<le> i \<and> js_index ppm i = Some Null")
    case True
    then have "- 1 \<le> i - 1" by simp
    with "1.IH" True have "- 1 \<le> latestValidIndex_loop ppm (i - 1) \<and> latestValidIndex_loop ppm (i - 1) \<le> i - 1"
      by blast
    with True show ?thesis
      by (subst latestValidIndex_loop.simps, subst latestValidIndex_loop.simps) simp
  next
    case False
    with "1.prems" show ?thesis
      by (subst latestValidIndex_loop.simps, subst latestValidIndex_loop.simps) auto
  qed
qed

lemma latestValidIndex_loop_stop:
  "0 \<le> latestValidIndex_loop ppm i \<Longrightarrow>
     js_index ppm (latestValidIndex_loop ppm i) \<noteq> Some Null"
proof (induction ppm i rule: latestValidIndex_loop.induct)
  case (1 ppm i)
  show ?case
  proof (cases "0 \<le> i \<and> js_index ppm i = Some Null")
    case True
    then have eq: "latestValidIndex_loop ppm i = latestValidIndex_loop ppm (i - 1)"
      by (subst latestValidIndex_loop.simps) simp
    with "1.IH" True "1.prems" show ?thesis by simp
  next
    case False
    then have eq: "latestValidIndex_loop ppm i = i"
      by (subst latestValidIndex_loop.simps) auto
    with False "1.prems" show ?thesis by auto
  qed
qed

lemma latestValidIndex_loop_skipped:
  "latestValidIndex_loop ppm i < j \<Longrightarrow> j \<le> i \<Longrightarrow> js_index ppm j = Some Null"
proof (induction ppm i rule: latestValidIndex_loop.induct)
  case (1 ppm i)
  show ?case
  proof (cases "0 \<le> i \<and> js_index ppm i = Some Null")
    case True
    then have eq: "latestValidIndex_loop ppm i = latestValidIndex_loop ppm (i - 1)"
      by (subst latestValidIndex_loop.simps) simp
    show ?thesis
    proof (cases "j = i")
      case True
      with \<open>0 \<le> i \<and> js_index ppm i = Some Null\<close> show ?thesis by simp
    next
      case False
      with "1.prems" eq have "latestValidIndex_loop ppm (i - 1) < j" "j \<le> i - 1" by simp_all
      with "1.IH" True show ?thesis by blast
    qed
  next
    case False
    then have eq: "latestValidIndex_loop ppm i = i"
      by (subst latestValidIndex_loop.simps) auto
    with "1.prems" show ?thesis by simp
  qed
qed

text \<open>
  Claim C1. For every category series the selection scans \<^verbatim>\<open>PPM3\<close> from the last
  index backward and stops at the first index whose value is not \<^verbatim>\<open>null\<close>: the
  reading it yields has the largest index holding a number, every later entry is
  \<^verbatim>\<open>null\<close>, and \<^verbatim>\<open>latestPPM\<close> is the number at that index. When every entry is
  \<^verbatim>\<open>null\<close> (the empty series included) the callback returns early and the category
  is skipped.
\<close>

theorem latest_valid_scan:
  "(case categoryReading ms (Series c) of
      None \<Rightarrow> \<forall>r \<in> set (PPM3 c). r = Null
    | Some g \<Rightarrow>
        (\<exists>k v. latestValidIndex g = int k \<and> k < length (PPM3 c) \<and>
           PPM3 c ! k = Num v \<and> latestPPM g = Some (Num v) \<and>
           (\<forall>j. k < j \<and> j < length (PPM3 c) \<longrightarrow> PPM3 c ! j = Null)))"
proof -
  define n where "n = int (length (PPM3 c)) - 1"
  define r where "r = latestValidIndex_loop (PPM3 c) n"
  have n: "- 1 \<le> n" by (simp add: n_def)
  from latestValidIndex_loop_range [OF n, of "PPM3 c"]
  have range: "- 1 \<le> r" "r \<le> n" by (simp_all add: r_def)
  have later: "js_index (PPM3 c) j = Some Null" if "r < j" "j \<le> n" for j
    using that latestValidIndex_loop_skipped [of "PPM3 c" n j] by (simp add: r_def)
  show ?thesis
  proof (cases "r = - 1")
    case True
    have "x = Null" if "x \<in> set (PPM3 c)" for x
    proof -
      from that obtain k where k: "k < length (PPM3 c)" "PPM3 c ! k = x"
        by (auto simp: in_set_conv_nth)
      then have "js_index (PPM3 c) (int k) = Some Null"
        using later [of "int k"] True by (simp add: n_def)
      with k show ?thesis by (simp add: js_index_def)
    qed
    with True show ?thesis
      by (simp add: categoryReading_def Let_def r_def n_def)
  next
    case False
    with range have r0: "0 \<le> r" by simp
    define k where "k = nat r"
    from r0 range have k: "r = int k" "k < length (PPM3 c)"
      by (simp_all add: k_def n_def)
    from latestValidIndex_loop_stop [of "PPM3 c" n] r0
    have "js_index (PPM3 c) r \<noteq> Some Null" by (simp add: r_def)
    with k have "PPM3 c ! k \<noteq> Null" by (simp add: js_index_def)
    then obtain v where v: "PPM3 c ! k = Num v" by (cases "PPM3 c ! k") auto
    have after: "PPM3 c ! j = Null" if "k < j" "j < length (PPM3 c)" for j
      using later [of "int j"] that k by (simp add: n_def js_index_def)
    from False k v after show ?thesis
      by (auto simp add: categoryReading_def Let_def r_def [symmetric] n_def [symmetric] js_index_def)
  qed
qed

text \<open>
  The series \<^verbatim>\<open>[1.0, null, 2.0, null]\<close> gives index 2 with PPM 2.0; the series
  \<^verbatim>\<open>[null, null]\<close> and the empty series are skipped.
\<close>

theorem latest_valid_scan_witness:
  "categoryReading [''t0'', ''t1'', ''t2'', ''t3'']
       (Series \<lparr>CategoryCode = ''POL'', CategoryDescription = Some ''Pollen'',
              PPM3 = [Num 1, Null, Num 2, Null], Misery = None\<rparr>)
     = Some \<lparr>latestValidIndex = 2, latestPPM = Some (Num 2),
             latestMisery = NotAvailable, latestTime = Some ''t2''\<rparr>
   \<and> categoryReading [''t0'', ''t1'']
       (Series \<lparr>CategoryCode = ''POL'', CategoryDescription = Some ''Pollen'',
              PPM3 = [Null, Null], Misery = None\<rparr>) = None
   \<and> categoryReading []
       (Series \<lparr>CategoryCode = ''POL'', CategoryDescription = Some ''Pollen'',
              PPM3 = [], Misery = None\<rparr>) = None"
  using latest_valid_scan [where ms = "[''t0'', ''t1'', ''t2'', ''t3'']" and c =
      "\<lparr>CategoryCode = ''POL'', CategoryDescription = Some ''Pollen'',
              PPM3 = [Num 1, Null, Num 2, Null], Misery = None\<rparr>"]
  by (simp add: categoryReading_def Let_def latestValidIndex_loop.simps js_index_def)

section \<open>Rounding to doubles\<close>

text \<open>How the rounding is evaluated: the spacing exponent of a magnitude in a given binade.\<close>

lemma Max_filter_upto:
  assumes "lo \<le> k" "k \<le> hi" "P k" "\<And>e. k < e \<Longrightarrow> e \<le> hi \<Longrightarrow> \<not> P e"
  shows "Max (set (lo # filter P [lo .. hi])) = k"
proof (rule Max_eqI)
  show "finite (set (lo # filter P [lo .. hi]))" by (rule List.finite_set)
  show "k \<in> set (lo # filter P [lo .. hi])" using assms(1-3) by simp
  fix e assume "e \<in> set (lo # filter P [lo .. hi])"
  then have "e = lo \<or> (e \<le> hi \<and> P e)" by auto
  with assms(1,4) show "e \<le> k" by (cases "k < e") auto
qed

lemma ulp_exponent_eq:
  assumes "- 1074 \<le> k" "k \<le> 971" "2 powi (k + 52) \<le> a" "a < 2 powi (k + 53)"
  shows "ulp_exponent a = k"
  unfolding ulp_exponent_def
proof (rule Max_filter_upto)
  show "- 1074 \<le> k" "k \<le> 971" "2 powi (k + 52) \<le> a" by fact+
  fix e assume "k < e" "e \<le> 971"
  then have "(2 :: real) powi (k + 53) \<le> 2 powi (e + 52)"
    by (intro power_int_increasing) simp_all
  with assms(4) show "\<not> 2 powi (e + 52) \<le> a" by simp
qed

lemma double_eq:
  assumes "\<not> overflows x" "0 \<le> x" "ulp_exponent x = e" "ties_even (x / 2 powi e) = n"
  shows "double x = Finite (of_int n * 2 powi e)"
  using assms by (simp add: double_def Let_def)

text \<open>
  A Misery value written \<^verbatim>\<open>0.10055\<close> is read as the double \<open>3622695540256827 / 2^55\<close>;
  its product with 100 is the double \<open>1415115445412823 / 2^47\<close>, just below 10.055, and
  \<^verbatim>\<open>toFixed(2)\<close> gives \<^verbatim>\<open>"10.05"\<close>.
\<close>

lemma double_of_010055: "double (2011 / 20000) = Finite (3622695540256827 / 2 ^ 55)"
proof -
  have o: "\<not> overflows (2011 / 20000)" by (simp add: overflows_def)
  have e: "ulp_exponent (2011 / 20000) = - 56"
    by (rule ulp_exponent_eq) (simp_all add: power_int_minus)
  have q: "(2011 / 20000 / 2 powi (- 56) :: real) = 144907821610273079296 / 20000"
    by (simp add: power_int_minus)
  have t: "ties_even (2011 / 20000 / 2 powi (- 56)) = 7245391080513654"
    unfolding q by (simp add: ties_even_def Let_def)
  from double_eq [OF o _ e t] show ?thesis by (simp add: power_int_minus)
qed

lemma double_of_product: "double (3622695540256827 / 2 ^ 55 * 100) = Finite (1415115445412823 / 2 ^ 47)"
proof -
  have o: "\<not> overflows (3622695540256827 / 2 ^ 55 * 100)" by (simp add: overflows_def)
  have e: "ulp_exponent (3622695540256827 / 2 ^ 55 * 100) = - 49"
    by (rule ulp_exponent_eq) (simp_all add: power_int_minus)
  have q: "(3622695540256827 / 2 ^ 55 * 100 / 2 powi (- 49) :: real) = 90567388506420675 / 16"
    by (simp add: power_int_minus)
  have t: "ties_even (3622695540256827 / 2 ^ 55 * 100 / 2 powi (- 49)) = 5660461781651292"
    unfolding q by (simp add: ties_even_def Let_def)
  from double_eq [OF o _ e t] show ?thesis by (simp add: power_int_minus)
qed

lemma misery_010055: "toFixed2 (times100 (Some (Num (2011 / 20000)))) = Fixed2 False 1005"
proof -
  have "times100 (Some (Num (2011 / 20000))) = double (3622695540256827 / 2 ^ 55 * 100)"
    by (simp only: times100.simps double_of_010055 number.case)
  also have "\<dots> = Finite (1415115445412823 / 2 ^ 47)"
    by (rule double_of_product)
  finally show ?thesis by simp
qed

text \<open>A Misery value written \<^verbatim>\<open>1e400\<close> is read as Infinity and shown as \<^verbatim>\<open>"Infinity"\<close>.\<close>

lemma misery_1e400: "toFixed2 (times100 (Some (Num (10 ^ 400)))) = InfinityText False"
  by (simp add: double_def overflows_def)

section \<open>The Misery percentage of the selected reading\<close>

text \<open>
  What line 155 computes, by cases: \<^verbatim>\<open>'N/A'\<close> only when the category has no
  \<^verbatim>\<open>Misery\<close> array; otherwise the text of the value at the selected index times
  100, where \<^verbatim>\<open>null\<close> counts as 0 and a missing element gives \<^verbatim>\<open>"NaN"\<close>.
\<close>

lemma latestMisery_cases:
  assumes "categoryReading ms (Series c) = Some g"
  shows "latestMisery g =
           (case Misery c of
              None \<Rightarrow> NotAvailable
            | Some m \<Rightarrow>
                (case js_index m (latestValidIndex g) of
                   None \<Rightarrow> NaNText
                 | Some Null \<Rightarrow> Fixed2 False 0
                 | Some (Num x) \<Rightarrow>
                     toFixed2 (case double x of Finite d \<Rightarrow> double (d * 100) | n \<Rightarrow> n)))"
  using assms
  by (auto simp add: categoryReading_def Let_def
      split: option.splits if_splits reading.splits)

text \<open>
  Claim C2. The Misery percentage is the value at the selected index times 100 to two
  decimals when the \<^verbatim>\<open>Misery\<close> array is present and its value at that index is
  present, and the marker \<^verbatim>\<open>'N/A'\<close> in every other case. The code tests only the
  array: for \<^verbatim>\<open>PPM3 = [1.0]\<close> with \<^verbatim>\<open>Misery = [null]\<close> it yields \<^verbatim>\<open>"0.00"\<close>, and
  with \<^verbatim>\<open>Misery = []\<close> it yields \<^verbatim>\<open>"NaN"\<close>; neither is the marker.
\<close>

theorem null_misery_shown_as_zero:
  "categoryReading [''2024-09-12T00:00:00Z'']
       (Series \<lparr>CategoryCode = ''POL'', CategoryDescription = Some ''Pollen'',
              PPM3 = [Num 1], Misery = Some [Null]\<rparr>)
     = Some \<lparr>latestValidIndex = 0, latestPPM = Some (Num 1),
             latestMisery = Fixed2 False 0, latestTime = Some ''2024-09-12T00:00:00Z''\<rparr> \<and>
   categoryReading [''2024-09-12T00:00:00Z'']
       (Series \<lparr>CategoryCode = ''POL'', CategoryDescription = Some ''Pollen'',
              PPM3 = [Num 1], Misery = Some []\<rparr>)
     = Some \<lparr>latestValidIndex = 0, latestPPM = Some (Num 1),
             latestMisery = NaNText, latestTime = Some ''2024-09-12T00:00:00Z''\<rparr> \<and>
   Fixed2 False 0 \<noteq> NotAvailable \<and> NaNText \<noteq> NotAvailable"
  by (simp add: categoryReading_def Let_def latestValidIndex_loop.simps js_index_def)

section \<open>The cache\<close>

text \<open>
  Claim C3. When \<^verbatim>\<open>noCache\<close> is not set and the cache holds an entry less than an
  hour old, the call returns the stored entry as it is (the value of the stored JSON
  text) and issues no request; the whole outcome is the same for any two lists of
  category codes.
\<close>

theorem cache_hit_ignores_categoryCodes:
  assumes "getUrlParameter search ''noCache'' \<noteq> Some ''true''"
    and "lastRequestTime ls = Some t0"
    and "pollenData ls = Some stored"
    and "currentTime - t0 < oneHourInMilliseconds"
  shows "returned (getDataByCategory cfg fetch search today currentTime ls categoryCodes)
           = Inr (JSON_parse stored) \<and>
         requests (getDataByCategory cfg fetch search today currentTime ls categoryCodes) = [] \<and>
         getDataByCategory cfg fetch search today currentTime ls categoryCodes =
           getDataByCategory cfg fetch search today currentTime ls categoryCodes'"
  using assms by (simp add: getDataByCategory_def Let_def)

text \<open>
  A cache filled for \<^verbatim>\<open>POL\<close> answers a request for \<^verbatim>\<open>GRA\<close> with the \<^verbatim>\<open>POL\<close>
  payload.
\<close>

theorem cache_hit_ignores_categoryCodes_witness:
  "returned (getDataByCategory example_config example_fetch [(''categoryCodes'', ''GRA'')]
      ''2024-09-12T10:20:30.000Z'' 1726137000000 example_storage [''GRA''])
     = Inr \<lparr>moments = Moments example_data, categories = [Series example_POL]\<rparr> \<and>
   getDataByCategory example_config example_fetch [(''categoryCodes'', ''GRA'')]
      ''2024-09-12T10:20:30.000Z'' 1726137000000 example_storage [''GRA'']
     = getDataByCategory example_config example_fetch [(''categoryCodes'', ''GRA'')]
      ''2024-09-12T10:20:30.000Z'' 1726137000000 example_storage [''POL'', ''MOL'']"
proof -
  have 1: "getUrlParameter [(''categoryCodes'', ''GRA'')] ''noCache'' \<noteq> Some ''true''"
    by (simp add: getUrlParameter_def)
  have 2: "lastRequestTime example_storage = Some 1726135200000"
    by (simp add: example_storage_def)
  have 3: "pollenData example_storage = Some (JSON_stringify (responseData [''POL''] example_data))"
    by (simp add: example_storage_def)
  have 4: "(1726137000000 :: int) - 1726135200000 < oneHourInMilliseconds"
    by (simp add: oneHourInMilliseconds_def)
  have 5: "JSON_parse (JSON_stringify (responseData [''POL''] example_data))
      = \<lparr>moments = Moments example_data, categories = [Series example_POL]\<rparr>"
    by (simp add: JSON_parse_def JSON_stringify_def responseData_def example_data_def
        example_POL_def example_GRA_def stringify_category_def stringify_reading_def
        overflows_def)
  from cache_hit_ignores_categoryCodes [OF 1 2 3 4] 5 show ?thesis by metis
qed

text \<open>
  Claim C4. With a stored timestamp \<open>t0\<close>, a stored payload, \<^verbatim>\<open>noCache\<close> not set and
  \<open>t0 \<le> now\<close>, the cached branch is taken exactly when \<open>now - t0 < 3600000\<close>, that
  is for \<open>now\<close> in \<open>[t0, t0 + 1h)\<close>; at \<open>now = t0 + 1h\<close> the entry is stale and a
  request is issued.
\<close>

theorem cache_freshness_window:
  assumes "getUrlParameter search ''noCache'' \<noteq> Some ''true''"
    and "lastRequestTime ls = Some t0"
    and "pollenData ls = Some stored"
    and "t0 \<le> now"
  shows "(console (getDataByCategory cfg fetch search today now ls categoryCodes) = [''Using cached data''])
           = (now - t0 < 3600000) \<and>
         (console (getDataByCategory cfg fetch search today now ls categoryCodes) = [''Using cached data''])
           = (now \<in> {t0 ..< t0 + 3600000}) \<and>
         (requests (getDataByCategory cfg fetch search today now ls categoryCodes) = [])
           = (now - t0 < 3600000)"
  using assms
  by (auto simp add: getDataByCategory_def Let_def oneHourInMilliseconds_def split: option.splits)

text \<open>
  At \<open>t0\<close> and one millisecond before the hour the cache is used; at exactly one
  hour it is not.
\<close>

theorem cache_freshness_window_witness:
  "console (getDataByCategory example_config example_fetch [] ''2024-09-12T10:20:30.000Z''
      1726135200000 example_storage [''POL'']) = [''Using cached data''] \<and>
   console (getDataByCategory example_config example_fetch [] ''2024-09-12T10:20:30.000Z''
      1726138799999 example_storage [''POL'']) = [''Using cached data''] \<and>
   console (getDataByCategory example_config example_fetch [] ''2024-09-12T10:20:30.000Z''
      1726138800000 example_storage [''POL'']) \<noteq> [''Using cached data''] \<and>
   requests (getDataByCategory example_config example_fetch [] ''2024-09-12T10:20:30.000Z''
      1726138800000 example_storage [''POL'']) \<noteq> []"
proof -
  have 1: "getUrlParameter [] ''noCache'' \<noteq> Some ''true''"
    by (simp add: getUrlParameter_def)
  have 2: "lastRequestTime example_storage = Some 1726135200000"
    by (simp add: example_storage_def)
  have 3: "pollenData example_storage = Some (JSON_stringify (responseData [''POL''] example_data))"
    by (simp add: example_storage_def)
  have a: "(1726135200000 :: int) \<le> 1726135200000" by simp
  have b: "(1726135200000 :: int) \<le> 1726138799999" by simp
  have c: "(1726135200000 :: int) \<le> 1726138800000" by simp
  from cache_freshness_window [OF 1 2 3 a] cache_freshness_window [OF 1 2 3 b]
    cache_freshness_window [OF 1 2 3 c]
  show ?thesis by simp
qed

text \<open>
  Claim C5. When the \<^verbatim>\<open>noCache\<close> parameter is \<^verbatim>\<open>true\<close>, whatever the cache holds,
  the call logs the fetch, issues exactly one HTTP request and returns the projection
  of its response (or rejects when the request fails), not the cached payload.
\<close>

theorem noCache_forces_fetch:
  assumes "getUrlParameter search ''noCache'' = Some ''true''"
  shows "\<exists>req. requests (getDataByCategory cfg fetch search today currentTime ls categoryCodes) = [req] \<and>
           console (getDataByCategory cfg fetch search today currentTime ls categoryCodes)
             = [''Fetching new data from API''] \<and>
           returned (getDataByCategory cfg fetch search today currentTime ls categoryCodes)
             = (case fetch req of None \<Rightarrow> Inl FetchRejected
                | Some data \<Rightarrow> Inr (responseData categoryCodes data))"
  using assms by (simp add: getDataByCategory_def Let_def split: option.splits)

text \<open>
  The cache holds a fresh \<^verbatim>\<open>POL\<close> payload; with \<^verbatim>\<open>noCache=true\<close> the request for
  \<^verbatim>\<open>GRA\<close> is fetched.
\<close>

theorem noCache_forces_fetch_witness:
  "length (requests (getDataByCategory example_config example_fetch [(''noCache'', ''true'')]
      ''2024-09-12T10:20:30.000Z'' 1726135200001 example_storage [''GRA''])) = 1 \<and>
   returned (getDataByCategory example_config example_fetch [(''noCache'', ''true'')]
      ''2024-09-12T10:20:30.000Z'' 1726135200001 example_storage [''GRA''])
     = Inr (responseData [''GRA''] example_data) \<and>
   pollenData example_storage = Some (JSON_stringify (responseData [''POL''] example_data)) \<and>
   (1726135200001 :: int) - the (lastRequestTime example_storage) < oneHourInMilliseconds"
proof -
  have 1: "getUrlParameter [(''noCache'', ''true'')] ''noCache'' = Some ''true''"
    by (simp add: getUrlParameter_def)
  have 2: "pollenData example_storage = Some (JSON_stringify (responseData [''POL''] example_data))"
    by (simp add: example_storage_def)
  have 3: "(1726135200001 :: int) - the (lastRequestTime example_storage) < oneHourInMilliseconds"
    by (simp add: example_storage_def oneHourInMilliseconds_def)
  from noCache_forces_fetch [OF 1, of example_config example_fetch "''2024-09-12T10:20:30.000Z''"
      1726135200001 example_storage "[''GRA'']"] 2 3
  show ?thesis by (auto simp add: example_fetch_def)
qed

text \<open>
  Claim C10. On the cached branch \<^verbatim>\<open>localStorage\<close> is left as it was: neither the
  payload nor the timestamp is written, so a hit does not extend the hour.
\<close>

theorem cache_hit_storage_unchanged:
  assumes "getUrlParameter search ''noCache'' \<noteq> Some ''true''"
    and "lastRequestTime ls = Some t0"
    and "pollenData ls = Some stored"
    and "currentTime - t0 < oneHourInMilliseconds"
  shows "storage (getDataByCategory cfg fetch search today currentTime ls categoryCodes) = ls"
  using assms by (simp add: getDataByCategory_def Let_def)

theorem cache_hit_storage_unchanged_witness:
  "storage (getDataByCategory example_config example_fetch [(''categoryCodes'', ''POL'')]
      ''2024-09-12T10:20:30.000Z'' 1726138799999 example_storage [''POL'']) = example_storage \<and>
   lastRequestTime (storage (getDataByCategory example_config example_fetch
      [(''categoryCodes'', ''POL'')] ''2024-09-12T10:20:30.000Z'' 1726138799999 example_storage
      [''POL''])) = Some 1726135200000"
proof -
  have 1: "getUrlParameter [(''categoryCodes'', ''POL'')] ''noCache'' \<noteq> Some ''true''"
    by (simp add: getUrlParameter_def)
  have 2: "lastRequestTime example_storage = Some 1726135200000"
    by (simp add: example_storage_def)
  have 3: "pollenData example_storage = Some (JSON_stringify (responseData [''POL''] example_data))"
    by (simp add: example_storage_def)
  have 4: "(1726138799999 :: int) - 1726135200000 < oneHourInMilliseconds"
    by (simp add: oneHourInMilliseconds_def)
  from cache_hit_storage_unchanged [OF 1 2 3 4] 2 show ?thesis by simp
qed

section \<open>The round trip through the cache\<close>

text \<open>What writing and reading back does to a payload, part by part.\<close>

lemma stringify_reading_id_iff:
  "stringify_reading r = r \<longleftrightarrow> (\<forall>x. r = Num x \<longrightarrow> \<not> overflows x)"
  by (cases r) (simp_all add: stringify_reading_def)

lemma stringify_category_id_iff:
  "stringify_category c = c \<longleftrightarrow>
     (\<forall>r \<in> set (PPM3 c). stringify_reading r = r) \<and>
     (\<forall>m. Misery c = Some m \<longrightarrow> (\<forall>r \<in> set m. stringify_reading r = r))"
proof -
  have "stringify_category c = c \<longleftrightarrow>
      map stringify_reading (PPM3 c) = PPM3 c \<and>
      map_option (map stringify_reading) (Misery c) = Misery c"
    unfolding stringify_category_def
    by (metis (no_types, lifting) category.select_convs(3,4) category.surjective
        category.update_convs(3,4))
  then show ?thesis
    by (cases "Misery c") (simp_all add: map_idI map_eq_conv [where g = id, simplified] list.map_ident_strong)
qed

lemma JSON_round_trip:
  "moments (JSON_parse (JSON_stringify d)) = moments d \<and>
   categories (JSON_parse (JSON_stringify d)) =
     map (\<lambda>e. case e of Series c \<Rightarrow> Series (stringify_category c) | _ \<Rightarrow> NullEntry)
       (categories d)"
  by (auto simp add: JSON_parse_def JSON_stringify_def split: entry.splits)

lemma JSON_round_trip_identity:
  assumes "\<forall>e \<in> set (categories d). \<exists>c. e = Series c \<and> stringify_category c = c"
  shows "JSON_parse (JSON_stringify d) = d"
proof -
  have "map (\<lambda>e. case e of Series c \<Rightarrow> Series (stringify_category c) | _ \<Rightarrow> NullEntry)
      (categories d) = categories d"
    using assms by (intro map_idI) auto
  with JSON_round_trip [of d] show ?thesis by simp
qed

text \<open>
  A reading written \<^verbatim>\<open>1e400\<close> is read as Infinity, which JSON text writes as
  \<^verbatim>\<open>null\<close>.
\<close>

lemma stringify_reading_infinity: "stringify_reading (Num (10 ^ 400)) = Null"
  by (simp add: stringify_reading_def overflows_def)

text \<open>
  Claim C7 says that a payload written to the cache and read back within the hour is
  identical to what was written. For the request \<^verbatim>\<open>["POL", "XYZ"]\<close> against a response
  without \<^verbatim>\<open>XYZ\<close> the fetching call returns \<^verbatim>\<open>undefined\<close> as second entry, and the
  call served from the cache returns \<^verbatim>\<open>null\<close> there. For a response whose reading
  is written \<^verbatim>\<open>1e400\<close> the fetching call returns that number, which is Infinity, and
  the call served from the cache returns \<^verbatim>\<open>null\<close> in its place.
\<close>

theorem cache_round_trip_counterexample:
  "returned (getDataByCategory example_config example_fetch [(''categoryCodes'', ''POL,XYZ'')]
      ''2024-09-12T10:20:30.000Z'' 1726135200000 \<lparr>pollenData = None, lastRequestTime = None\<rparr>
      [''POL'', ''XYZ''])
     = Inr \<lparr>moments = Moments example_data, categories = [Series example_POL, Undefined]\<rparr> \<and>
   returned (getDataByCategory example_config example_fetch [(''categoryCodes'', ''POL,XYZ'')]
      ''2024-09-12T10:20:30.001Z'' 1726135200001
      (storage (getDataByCategory example_config example_fetch [(''categoryCodes'', ''POL,XYZ'')]
         ''2024-09-12T10:20:30.000Z'' 1726135200000 \<lparr>pollenData = None, lastRequestTime = None\<rparr>
         [''POL'', ''XYZ'']))
      [''POL'', ''XYZ''])
     = Inr \<lparr>moments = Moments example_data, categories = [Series example_POL, NullEntry]\<rparr> \<and>
   Undefined \<noteq> NullEntry \<and>
   returned (getDataByCategory example_config example_huge_fetch [] ''2024-09-12T10:20:30.000Z''
      1726135200000 \<lparr>pollenData = None, lastRequestTime = None\<rparr> [''POL''])
     = Inr \<lparr>moments = [''2024-09-12T00:00:00Z''],
            categories =
              [Series \<lparr>CategoryCode = ''POL'', CategoryDescription = Some ''Pollen'',
                        PPM3 = [Num (10 ^ 400)], Misery = None\<rparr>]\<rparr> \<and>
   returned (getDataByCategory example_config example_huge_fetch [] ''2024-09-12T10:20:30.001Z''
      1726135200001
      (storage (getDataByCategory example_config example_huge_fetch []
         ''2024-09-12T10:20:30.000Z'' 1726135200000 \<lparr>pollenData = None, lastRequestTime = None\<rparr>
         [''POL'']))
      [''POL''])
     = Inr \<lparr>moments = [''2024-09-12T00:00:00Z''],
            categories =
              [Series \<lparr>CategoryCode = ''POL'', CategoryDescription = Some ''Pollen'',
                        PPM3 = [Null], Misery = None\<rparr>]\<rparr> \<and>
   Num (10 ^ 400) \<noteq> Null"
  by (simp add: getDataByCategory_def Let_def getUrlParameter_def oneHourInMilliseconds_def
      example_fetch_def example_huge_fetch_def responseData_def JSON_parse_def JSON_stringify_def
      stringify_category_def stringify_reading_def overflows_def
      example_data_def example_huge_data_def example_POL_def example_GRA_def)

text \<open>
  Claim C7, amended. What a fetching call writes to the cache is the JSON text of the
  payload it returned, and any call that reads the cache within the hour (with
  \<^verbatim>\<open>noCache\<close> not set) returns the value of that text: the same \<open>moments\<close> and, entry
  by entry, the same \<open>categories\<close>, except that an entry that is \<^verbatim>\<open>undefined\<close> is read
  back as \<^verbatim>\<open>null\<close> and a number that is not finite is read back as \<^verbatim>\<open>null\<close>. When
  every entry is a category object whose readings are \<^verbatim>\<open>null\<close> or finite numbers,
  the payload read back is the payload written.
\<close>

theorem cache_round_trip:
  assumes "requests (getDataByCategory cfg fetch search today t0 ls categoryCodes) \<noteq> []"
    and "returned (getDataByCategory cfg fetch search today t0 ls categoryCodes) = Inr written"
    and "getUrlParameter search' ''noCache'' \<noteq> Some ''true''"
    and "now - t0 < oneHourInMilliseconds"
  shows "\<exists>read.
           returned (getDataByCategory cfg' fetch' search' today' now
             (storage (getDataByCategory cfg fetch search today t0 ls categoryCodes)) categoryCodes')
             = Inr read \<and>
           moments read = moments written \<and>
           length (categories read) = length (categories written) \<and>
           (\<forall>i < length (categories written).
              categories read ! i =
                (case categories written ! i of
                   Series c \<Rightarrow> Series (stringify_category c)
                 | _ \<Rightarrow> NullEntry)) \<and>
           ((\<forall>e \<in> set (categories written).
                \<exists>c. e = Series c \<and>
                  (\<forall>x. Num x \<in> set (PPM3 c) \<longrightarrow> \<not> overflows x) \<and>
                  (\<forall>m x. Misery c = Some m \<and> Num x \<in> set m \<longrightarrow> \<not> overflows x))
              \<longrightarrow> read = written)"
proof -
  let ?first = "getDataByCategory cfg fetch search today t0 ls categoryCodes"
  let ?read = "JSON_parse (JSON_stringify written)"
  from assms(1,2) have st: "storage ?first =
      \<lparr>pollenData = Some (JSON_stringify written), lastRequestTime = Some t0\<rparr>"
    by (auto simp add: getDataByCategory_def Let_def split: option.splits if_splits)
  have "returned (getDataByCategory cfg' fetch' search' today' now
      \<lparr>pollenData = Some (JSON_stringify written), lastRequestTime = Some t0\<rparr> categoryCodes')
      = Inr ?read"
    using assms(3,4) by (simp add: getDataByCategory_def Let_def)
  then have "returned (getDataByCategory cfg' fetch' search' today' now (storage ?first)
      categoryCodes') = Inr ?read"
    by (simp only: st)
  moreover have "moments ?read = moments written"
    by (simp add: JSON_round_trip)
  moreover have "length (categories ?read) = length (categories written)"
    by (simp add: JSON_round_trip)
  moreover have "\<forall>i < length (categories written).
      categories ?read ! i =
        (case categories written ! i of Series c \<Rightarrow> Series (stringify_category c) | _ \<Rightarrow> NullEntry)"
    by (simp add: JSON_round_trip)
  moreover have "(\<forall>e \<in> set (categories written).
        \<exists>c. e = Series c \<and>
          (\<forall>x. Num x \<in> set (PPM3 c) \<longrightarrow> \<not> overflows x) \<and>
          (\<forall>m x. Misery c = Some m \<and> Num x \<in> set m \<longrightarrow> \<not> overflows x))
      \<longrightarrow> ?read = written"
  proof
    assume fin: "\<forall>e \<in> set (categories written).
        \<exists>c. e = Series c \<and>
          (\<forall>x. Num x \<in> set (PPM3 c) \<longrightarrow> \<not> overflows x) \<and>
          (\<forall>m x. Misery c = Some m \<and> Num x \<in> set m \<longrightarrow> \<not> overflows x)"
    have "\<exists>c. e = Series c \<and> stringify_category c = c" if "e \<in> set (categories written)" for e
    proof -
      from fin that obtain c where c: "e = Series c"
        "\<forall>x. Num x \<in> set (PPM3 c) \<longrightarrow> \<not> overflows x"
        "\<forall>m x. Misery c = Some m \<and> Num x \<in> set m \<longrightarrow> \<not> overflows x"
        by blast
      from c(2,3) have "stringify_category c = c"
        unfolding stringify_category_id_iff stringify_reading_id_iff by blast
      with c(1) show ?thesis by blast
    qed
    then show "?read = written"
      using JSON_round_trip_identity [of written] by blast
  qed
  ultimately show ?thesis by blast
qed

text \<open>
  A request for \<^verbatim>\<open>POL\<close> alone, which the response has, with finite readings: the call
  served from the cache returns the payload of the fetching call.
\<close>

theorem cache_round_trip_witness:
  "returned (getDataByCategory example_config example_fetch [(''categoryCodes'', ''POL'')]
      ''2024-09-12T10:20:30.000Z'' 1726135200000 \<lparr>pollenData = None, lastRequestTime = None\<rparr>
      [''POL''])
     = Inr (responseData [''POL''] example_data) \<and>
   returned (getDataByCategory example_config example_fetch [(''categoryCodes'', ''GRA'')]
      ''2024-09-12T11:20:29.999Z'' 1726138799999
      (storage (getDataByCategory example_config example_fetch [(''categoryCodes'', ''POL'')]
         ''2024-09-12T10:20:30.000Z'' 1726135200000 \<lparr>pollenData = None, lastRequestTime = None\<rparr>
         [''POL'']))
      [''GRA''])
     = Inr (responseData [''POL''] example_data)"
proof -
  let ?first = "getDataByCategory example_config example_fetch [(''categoryCodes'', ''POL'')]
      ''2024-09-12T10:20:30.000Z'' 1726135200000 \<lparr>pollenData = None, lastRequestTime = None\<rparr>
      [''POL'']"
  have 1: "requests ?first \<noteq> []"
    by (simp add: getDataByCategory_def Let_def example_fetch_def)
  have 2: "returned ?first = Inr (responseData [''POL''] example_data)"
    by (simp add: getDataByCategory_def Let_def example_fetch_def)
  have 3: "getUrlParameter [(''categoryCodes'', ''GRA'')] ''noCache'' \<noteq> Some ''true''"
    by (simp add: getUrlParameter_def)
  have 4: "(1726138799999 :: int) - 1726135200000 < oneHourInMilliseconds"
    by (simp add: oneHourInMilliseconds_def)
  have 5: "\<forall>e \<in> set (categories (responseData [''POL''] example_data)).
      \<exists>c. e = Series c \<and>
        (\<forall>x. Num x \<in> set (PPM3 c) \<longrightarrow> \<not> overflows x) \<and>
        (\<forall>m x. Misery c = Some m \<and> Num x \<in> set m \<longrightarrow> \<not> overflows x)"
    by (auto simp add: responseData_def example_data_def example_POL_def example_GRA_def
        overflows_def)
  from cache_round_trip [OF 1 2 3 4, of example_config example_fetch
      "''2024-09-12T11:20:29.999Z''" "[''GRA'']"] 5
  have "returned (getDataByCategory example_config example_fetch [(''categoryCodes'', ''GRA'')]
      ''2024-09-12T11:20:29.999Z'' 1726138799999 (storage ?first) [''GRA''])
     = Inr (responseData [''POL''] example_data)"
    by auto
  with 2 show ?thesis by blast
qed

section \<open>The projection of the response\<close>

text \<open>
  Claim C6. The projected \<open>categories\<close> has one entry per requested code, in the
  order of the request: the first entry of \<^verbatim>\<open>Categories\<close> with that code, or absent
  (\<^verbatim>\<open>undefined\<close>) when no entry has it; \<open>moments\<close> is \<^verbatim>\<open>Moments\<close>.
\<close>

theorem projection_by_requested_codes:
  "moments (responseData categoryCodes data) = Moments data \<and>
   length (categories (responseData categoryCodes data)) = length categoryCodes \<and>
   (\<forall>i < length categoryCodes.
      case categories (responseData categoryCodes data) ! i of
        Undefined \<Rightarrow> \<forall>c \<in> set (Categories data). CategoryCode c \<noteq> categoryCodes ! i
      | NullEntry \<Rightarrow> False
      | Series c \<Rightarrow>
          \<exists>j < length (Categories data). Categories data ! j = c \<and>
            CategoryCode c = categoryCodes ! i \<and>
            (\<forall>j' < j. CategoryCode (Categories data ! j') \<noteq> categoryCodes ! i))"
  by (auto simp add: responseData_def find_None_iff find_Some_iff split: option.splits)

text \<open>
  Requesting \<^verbatim>\<open>["POL", "XYZ"]\<close> from a response with \<^verbatim>\<open>POL\<close> and \<^verbatim>\<open>GRA\<close> gives the
  \<^verbatim>\<open>POL\<close> series followed by an absent entry.
\<close>

theorem projection_by_requested_codes_witness:
  "categories (responseData [''POL'', ''XYZ''] example_data) = [Series example_POL, Undefined] \<and>
   moments (responseData [''POL'', ''XYZ''] example_data) = Moments example_data \<and>
   length (categories (responseData [''POL'', ''XYZ''] example_data)) = 2"
proof -
  have "categories (responseData [''POL'', ''XYZ''] example_data) = [Series example_POL, Undefined]"
    by (simp add: responseData_def example_data_def example_POL_def example_GRA_def)
  with projection_by_requested_codes [of "[''POL'', ''XYZ'']" example_data]
  show ?thesis by simp
qed

section \<open>The requested date and its UTC window\<close>

text \<open>
  Strings are compared in lexicographic order, which is the order in time of two
  UTC timestamps written in the same fixed format.
\<close>

lemma append_le_append_left: "(xs :: string) @ ys \<le> xs @ zs \<longleftrightarrow> ys \<le> zs"
  by (induction xs) simp_all

text \<open>
  Claim C8. For every date string \<open>D\<close> the window starts at \<open>D\<close> followed by
  \<^verbatim>\<open>T00:00:00Z\<close> and ends at \<open>D\<close> followed by \<^verbatim>\<open>T23:59:59Z\<close>, and the start is not
  after the end.
\<close>

theorem utc_window:
  "getFormattedDateUTC D False = D @ ''T00:00:00Z'' \<and>
   getFormattedDateUTC D True = D @ ''T23:59:59Z'' \<and>
   getFormattedDateUTC D False \<le> getFormattedDateUTC D True"
  by (simp add: getFormattedDateUTC_def append_le_append_left)

theorem utc_window_witness:
  "getFormattedDateUTC ''2024-09-12'' False = ''2024-09-12T00:00:00Z'' \<and>
   getFormattedDateUTC ''2024-09-12'' True = ''2024-09-12T23:59:59Z'' \<and>
   ''2024-09-12T00:00:00Z'' \<le> ''2024-09-12T23:59:59Z''"
  using utc_window [of "''2024-09-12''"] by simp




end
